theory Spec2Isabelle
  imports Complex_Main "HOL-Library.Char_ord" "HOL-Library.List_Lexorder"
begin

section \<open>Python string primitives used by the dashboard code\<close>

text \<open>
  Strings are lists of characters. The operations below are the ones the source calls on
  \<open>str\<close> values: \<open>key in message\<close>, \<open>str.split()\<close>, \<open>str.lower()\<close>,
  \<open>str.title()\<close> and \<open>str.replace\<close> of one character. Case mapping is modelled on
  the ASCII letters.
\<close>

definition ascii_lowercase :: string where
  "ascii_lowercase = ''abcdefghijklmnopqrstuvwxyz''"

definition ascii_uppercase :: string where
  "ascii_uppercase = ''ABCDEFGHIJKLMNOPQRSTUVWXYZ''"

definition islower_chr :: "char \<Rightarrow> bool" where
  "islower_chr c = (c \<in> set ascii_lowercase)"

definition isupper_chr :: "char \<Rightarrow> bool" where
  "isupper_chr c = (c \<in> set ascii_uppercase)"

definition upper_chr :: "char \<Rightarrow> char" where
  "upper_chr c = (case map_of (zip ascii_lowercase ascii_uppercase) c of
                    Some u \<Rightarrow> u | None \<Rightarrow> c)"

definition lower_chr :: "char \<Rightarrow> char" where
  "lower_chr c = (case map_of (zip ascii_uppercase ascii_lowercase) c of
                    Some l \<Rightarrow> l | None \<Rightarrow> c)"


text \<open>
  \<open>str.title()\<close>: a cased character is upper-cased when the character before it is
  not cased, and lower-cased otherwise. The flag is "previous character is cased".
\<close>

fun title_from :: "bool \<Rightarrow> string \<Rightarrow> string" where
  "title_from prev [] = []"
| "title_from prev (c # cs) =
     (if islower_chr c then (if prev then c else upper_chr c) # title_from True cs
      else if isupper_chr c then (if prev then lower_chr c else c) # title_from True cs
      else c # title_from False cs)"

definition py_title :: "string \<Rightarrow> string" where
  "py_title s = title_from False s"

definition py_replace_chr :: "char \<Rightarrow> char \<Rightarrow> string \<Rightarrow> string" where
  "py_replace_chr old new s = map (\<lambda>c. if c = old then new else c) s"






section \<open>Conversational responder (\<open>FarmChatbot\<close>)\<close>

















text \<open>
  The external completion service is a parameter: given the system prompt and the user
  message it returns a text or fails. \<open>np.random.choice\<close> is the parameter \<open>pick\<close>,
  an index into the three canned replies.
\<close>

datatype api_error = ApiError











section \<open>Alert store accessor and sensor threshold monitor (\<open>FirebaseService\<close>)\<close>

text \<open>
  An alert node of the real-time store. The accessor writes string and boolean fields; a
  field the node does not have is \<open>None\<close> (the store keeps no null values, so
  \<open>'source': None\<close> is an absent field). All fields are optional because
  \<open>ref.update\<close> on an id that has no node creates a node holding only the updated
  fields.
\<close>

record alert =
  alert_title :: "string option"
  alert_message :: "string option"
  alert_priority :: "string option"
  alert_source :: "string option"
  alert_timestamp :: "string option"
  alert_read :: "bool option"
  alert_resolved :: "bool option"
  alert_resolved_at :: "string option"
  alert_resolution_note :: "string option"

definition empty_alert :: alert where
  "empty_alert = \<lparr>alert_title = None, alert_message = None, alert_priority = None,
     alert_source = None, alert_timestamp = None, alert_read = None, alert_resolved = None,
     alert_resolved_at = None, alert_resolution_note = None\<rparr>"

text \<open>
  The \<open>alerts\<close> collection maps keys to nodes; it is kept as an association list.
  \<open>update_child k f\<close> is a write to \<open>alerts/k\<close>: \<open>f\<close> is applied to the node
  there, or to the empty node when there is none.
\<close>

record database =
  alerts :: "(string \<times> alert) list"

fun update_child :: "string \<Rightarrow> (alert \<Rightarrow> alert) \<Rightarrow> (string \<times> alert) list \<Rightarrow> (string \<times> alert) list" where
  "update_child k f [] = [(k, f empty_alert)]"
| "update_child k f ((k', a) # rest) =
     (if k' = k then (k', f a) # rest else (k', a) # update_child k f rest)"

text \<open>
  The service object. \<open>db_ref\<close> is \<open>None\<close> when \<open>_initialize_firebase\<close> failed (it
  catches the error and leaves the attribute unset); every later
  \<open>self.db_ref.child(...)\<close> then raises inside the method's \<open>try\<close>. With a reference,
  \<open>db_ref\<close> holds the content of the database it points to. \<open>push_log\<close> lists the
  notifications handed to \<open>_send_push_notification\<close>.
\<close>

record firebase_service =
  db_ref :: "database option"
  push_log :: "(string \<times> string) list"

definition send_push_notification :: "firebase_service \<Rightarrow> string \<Rightarrow> string \<Rightarrow> firebase_service" where
  "send_push_notification s title body = s\<lparr>push_log := push_log s @ [(title, body)]\<rparr>"

text \<open>
  \<open>create_alert\<close>. The key that the store's \<open>push\<close> generates and the clock reading
  \<open>datetime.now().isoformat()\<close> are the parameters \<open>new_key\<close> and \<open>now\<close>. The
  result is \<open>ref.key\<close>, or \<open>None\<close> from the \<open>except\<close> branch.
\<close>

definition create_alert ::
  "firebase_service \<Rightarrow> string \<Rightarrow> string \<Rightarrow> string \<Rightarrow> string \<Rightarrow> string \<Rightarrow> string option
     \<Rightarrow> string option \<times> firebase_service" where
  "create_alert s new_key now title message priority source =
     (case db_ref s of
        None \<Rightarrow> (None, s)
      | Some db \<Rightarrow>
          let alert_data = \<lparr>alert_title = Some title, alert_message = Some message,
                 alert_priority = Some priority, alert_source = source,
                 alert_timestamp = Some now, alert_read = Some False,
                 alert_resolved = Some False, alert_resolved_at = None,
                 alert_resolution_note = None\<rparr>;
              s1 = s\<lparr>db_ref := Some (db\<lparr>alerts := update_child new_key (\<lambda>_. alert_data) (alerts db)\<rparr>)\<rparr>;
              s2 = (if priority = ''high'' then send_push_notification s1 title message else s1)
          in (Some new_key, s2))"

text \<open>The store's read of \<open>alerts/alert_id\<close>.\<close>

definition alert_at :: "firebase_service \<Rightarrow> string \<Rightarrow> alert option" where
  "alert_at s alert_id =
     (case db_ref s of None \<Rightarrow> None | Some db \<Rightarrow> map_of (alerts db) alert_id)"

text \<open>
  Queries. \<open>order_by_key\<close> sorts by key; \<open>order_by_child('read').equal_to(False)\<close>
  keeps the nodes whose \<open>read\<close> field is \<open>false\<close>, which all have the same child
  value and are therefore ordered by key; \<open>limit_to_last n\<close> keeps the last \<open>n\<close>.
\<close>

definition order_by_key :: "(string \<times> alert) list \<Rightarrow> (string \<times> alert) list" where
  "order_by_key al = sort_key fst al"

definition read_equal_to :: "bool \<Rightarrow> (string \<times> alert) list \<Rightarrow> (string \<times> alert) list" where
  "read_equal_to b al = order_by_key (filter (\<lambda>(k, a). alert_read a = Some b) al)"

definition limit_to_last :: "nat \<Rightarrow> 'a list \<Rightarrow> 'a list" where
  "limit_to_last n xs = drop (length xs - n) xs"

text \<open>
  \<open>sorted(alert_list, key=lambda x: x['timestamp'], reverse=True)\<close>: \<open>None\<close> when
  some entry has no \<open>timestamp\<close> (KeyError); otherwise the stable descending sort,
  which is the reverse of the stable ascending sort of the reversed list.
\<close>

definition with_timestamp :: "string \<times> alert \<Rightarrow> (string \<times> string \<times> alert) option" where
  "with_timestamp e = map_option (\<lambda>t. (t, e)) (alert_timestamp (snd e))"

definition sorted_newest_first :: "(string \<times> alert) list \<Rightarrow> (string \<times> alert) list option" where
  "sorted_newest_first alert_list =
     map_option (\<lambda>ts. map snd (rev (sort_key fst (rev ts))))
       (those (map with_timestamp alert_list))"

text \<open>
  \<open>get_alerts\<close>. An entry \<open>(alert_id, alert_data)\<close> of the result stands for the
  dictionary \<open>alert_data\<close> with \<open>alert_data['id'] = alert_id\<close>. A negative limit is
  rejected by \<open>limit_to_last\<close> with a ValueError; every exception gives \<open>[]\<close>.
\<close>

definition get_alerts :: "firebase_service \<Rightarrow> bool \<Rightarrow> int \<Rightarrow> (string \<times> alert) list" where
  "get_alerts s unread_only limit =
     (case db_ref s of
        None \<Rightarrow> []
      | Some db \<Rightarrow>
          if limit < 0 then []
          else
            let found = (if unread_only
                         then limit_to_last (nat limit) (read_equal_to False (alerts db))
                         else limit_to_last (nat limit) (order_by_key (alerts db)))
            in if found = [] then []
               else (case sorted_newest_first found of
                       None \<Rightarrow> []
                     | Some alert_list \<Rightarrow> alert_list))"

definition mark_alert_read :: "firebase_service \<Rightarrow> string \<Rightarrow> bool \<times> firebase_service" where
  "mark_alert_read s alert_id =
     (case db_ref s of
        None \<Rightarrow> (False, s)
      | Some db \<Rightarrow>
          (True, s\<lparr>db_ref := Some (db\<lparr>alerts :=
                     update_child alert_id (\<lambda>a. a\<lparr>alert_read := Some True\<rparr>) (alerts db)\<rparr>)\<rparr>))"

text \<open>\<open>if resolution_note:\<close> holds for a note that is neither \<open>None\<close> nor empty.\<close>

definition resolve_update :: "string \<Rightarrow> string option \<Rightarrow> alert \<Rightarrow> alert" where
  "resolve_update now resolution_note a =
     (let a1 = a\<lparr>alert_resolved := Some True, alert_resolved_at := Some now,
                  alert_read := Some True\<rparr>
      in case resolution_note of
           None \<Rightarrow> a1
         | Some note \<Rightarrow> if note = [] then a1 else a1\<lparr>alert_resolution_note := Some note\<rparr>)"

definition resolve_alert ::
  "firebase_service \<Rightarrow> string \<Rightarrow> string \<Rightarrow> string option \<Rightarrow> bool \<times> firebase_service" where
  "resolve_alert s now alert_id resolution_note =
     (case db_ref s of
        None \<Rightarrow> (False, s)
      | Some db \<Rightarrow>
          (True, s\<lparr>db_ref := Some (db\<lparr>alerts :=
                     update_child alert_id (resolve_update now resolution_note) (alerts db)\<rparr>)\<rparr>))"

text \<open>
  \<open>_check_sensor_alerts\<close>. A reading's value is a real number; \<open>fmt\<close> is the rendering
  of a number inside an f-string.
\<close>

definition alert_thresholds :: "(string \<times> real \<times> real) list" where
  "alert_thresholds =
     [(''soil_moisture'', 20, 80),
      (''temperature'', 5, 35),
      (''humidity'', 30, 90),
      (''ph_level'', 6.0, 7.5)]"

definition metric_title :: "string \<Rightarrow> string" where
  "metric_title sensor_type = py_title (py_replace_chr CHR ''_'' CHR '' '' sensor_type)"

definition check_sensor_alerts ::
  "firebase_service \<Rightarrow> string \<Rightarrow> string \<Rightarrow> (real \<Rightarrow> string) \<Rightarrow> string \<Rightarrow> string \<Rightarrow> real
     \<Rightarrow> firebase_service" where
  "check_sensor_alerts s new_key now fmt sensor_id sensor_type val =
     (case map_of alert_thresholds sensor_type of
        None \<Rightarrow> s
      | Some (lo, hi) \<Rightarrow>
          if val < lo then
            snd (create_alert s new_key now
                   (''Low '' @ metric_title sensor_type)
                   (''Sensor '' @ sensor_id @ '': '' @ sensor_type @ '' is '' @ fmt val @
                    '' (below minimum '' @ fmt lo @ '')'')
                   ''high'' (Some sensor_id))
          else if val > hi then
            snd (create_alert s new_key now
                   (''High '' @ metric_title sensor_type)
                   (''Sensor '' @ sensor_id @ '': '' @ sensor_type @ '' is '' @ fmt val @
                    '' (above maximum '' @ fmt hi @ '')'')
                   ''high'' (Some sensor_id))
          else s)"

text \<open>
  The stores the accessor builds: keys are distinct (the collection is a map), and every
  node whose \<open>read\<close> field is \<open>false\<close> has a timestamp. Both hold of the empty store
  and are kept by \<open>create_alert\<close> (with a fresh key), \<open>mark_alert_read\<close> and
  \<open>resolve_alert\<close>.
\<close>

definition store_ok :: "firebase_service \<Rightarrow> bool" where
  "store_ok s =
     (case db_ref s of
        None \<Rightarrow> True
      | Some db \<Rightarrow>
          distinct (map fst (alerts db)) \<and>
          list_all (\<lambda>(k, a). alert_read a = Some False \<longrightarrow> alert_timestamp a \<noteq> None) (alerts db))"

definition unread_count :: "firebase_service \<Rightarrow> nat" where
  "unread_count s =
     (case db_ref s of
        None \<Rightarrow> 0
      | Some db \<Rightarrow> length (filter (\<lambda>(k, a). alert_read a = Some False) (alerts db)))"


definition node_or_empty :: "(string \<times> alert) list \<Rightarrow> string \<Rightarrow> alert" where
  "node_or_empty al k = (case map_of al k of None \<Rightarrow> empty_alert | Some a \<Rightarrow> a)"

text \<open>The titles of the alerts a store holds, in storage order.\<close>

definition alert_titles :: "firebase_service \<Rightarrow> string option list" where
  "alert_titles s = (case db_ref s of None \<Rightarrow> [] | Some db \<Rightarrow> map (alert_title \<circ> snd) (alerts db))"

text \<open>The node \<open>_check_sensor_alerts\<close> hands to \<open>create_alert\<close> for an out-of-range reading.\<close>

definition sensor_alert ::
  "string \<Rightarrow> string \<Rightarrow> string \<Rightarrow> string \<Rightarrow> string \<Rightarrow> string \<Rightarrow> string \<Rightarrow> string \<Rightarrow> alert" where
  "sensor_alert now level side sensor_id sensor_type shown_value bound shown_bound =
     \<lparr>alert_title = Some (level @ '' '' @ metric_title sensor_type),
      alert_message = Some (''Sensor '' @ sensor_id @ '': '' @ sensor_type @ '' is '' @ shown_value @
                            '' ('' @ side @ '' '' @ bound @ '' '' @ shown_bound @ '')''),
      alert_priority = Some ''high'', alert_source = Some sensor_id,
      alert_timestamp = Some now, alert_read = Some False, alert_resolved = Some False,
      alert_resolved_at = None, alert_resolution_note = None\<rparr>"

definition connected_empty :: firebase_service where
  "connected_empty = \<lparr>db_ref = Some \<lparr>alerts = []\<rparr>, push_log = []\<rparr>"

section \<open>Dates (\<open>datetime\<close>, \<open>timedelta\<close>)\<close>

text \<open>
  A \<open>datetime\<close> is the proleptic Gregorian ordinal of its date (day 1 is 0001-01-01, the
  last representable day 9999-12-31 has ordinal 3652059) and the time of day in
  microseconds. Adding a \<open>timedelta\<close> of whole days moves the ordinal only and raises
  OverflowError when the result leaves the representable range; \<open>timedelta(days=d)\<close>
  itself raises OverflowError beyond 999999999 days.
\<close>

datatype py_error = OverflowError | ValueError | NotFittedError

record datetime =
  ordinal :: int
  day_micros :: nat

definition MAXORDINAL :: int where
  "MAXORDINAL = 3652059"

definition timedelta_days :: "int \<Rightarrow> py_error + int" where
  "timedelta_days d = (if \<bar>d\<bar> \<le> 999999999 then Inr d else Inl OverflowError)"

definition add_days :: "datetime \<Rightarrow> int \<Rightarrow> py_error + datetime" where
  "add_days dt d =
     (let n = ordinal dt + d
      in if 0 < n \<and> n \<le> MAXORDINAL then Inr (dt\<lparr>ordinal := n\<rparr>) else Inl OverflowError)"

text \<open>
  The calendar month of a date, by the standard library's conversion of an ordinal to
  year, month and day (\<open>_ord2ymd\<close>): 400-year cycles of 146097 days, centuries of
  36524 days, 4-year cycles of 1461 days, years of 365 days, then an estimate of the month
  that is corrected when it is one too large.
\<close>

definition days_in_month_tab :: "int list" where
  "days_in_month_tab = [-1, 31, 28, 31, 30, 31, 30, 31, 31, 30, 31, 30, 31]"

definition days_before_month_tab :: "int list" where
  "days_before_month_tab = [-1, 0, 31, 59, 90, 120, 151, 181, 212, 243, 273, 304, 334]"

definition ord2ymd :: "int \<Rightarrow> int \<times> int \<times> int" where
  "ord2ymd n =
     (let n0 = n - 1;
          n400 = n0 div 146097; r400 = n0 mod 146097;
          n100 = r400 div 36524; r100 = r400 mod 36524;
          n4 = r100 div 1461; r4 = r100 mod 1461;
          n1 = r4 div 365; r1 = r4 mod 365;
          year = n400 * 400 + 1 + n100 * 100 + n4 * 4 + n1
      in if n1 = 4 \<or> n100 = 4 then (year - 1, 12, 31)
         else
           let leapyear = (n1 = 3 \<and> (n4 \<noteq> 24 \<or> n100 = 3));
               month = (r1 + 50) div 32;
               preceding = days_before_month_tab ! nat month
                           + (if month > 2 \<and> leapyear then 1 else 0)
           in if preceding > r1
              then let month' = month - 1;
                       preceding' = preceding - (days_in_month_tab ! nat month'
                                      + (if month' = 2 \<and> leapyear then 1 else 0))
                   in (year, month', r1 - preceding' + 1)
              else (year, month, r1 - preceding + 1))"

definition month_of :: "datetime \<Rightarrow> int" where
  "month_of dt = fst (snd (ord2ymd (ordinal dt)))"

section \<open>Yield estimator (\<open>YieldPredictor\<close>)\<close>

text \<open>
  A row of the observation batch: the five columns of the historical-yield query and the
  three columns \<open>prepare_features\<close> adds (\<open>None\<close> in a derived column: the column is
  not there yet, or the cell is NaN). A missing cell of an input column is \<open>None\<close>.
\<close>

record observation =
  col_ds :: "datetime option"
  col_y :: "real option"
  col_crop_type :: string
  col_weather_condition :: "string option"
  col_soil_quality_score :: "real option"
  col_month :: "int option"
  col_crop_type_encoded :: "nat option"
  col_weather_score :: "real option"

type_synonym dataframe = "observation list"

text \<open>
  DataFrames are mutable objects: the heap maps references to frames, and \<open>next_ref\<close> is
  the first reference not yet allocated.
\<close>

record heap =
  frames :: "nat \<Rightarrow> dataframe"
  next_ref :: nat

definition df_new :: "heap \<Rightarrow> dataframe \<Rightarrow> heap \<times> nat" where
  "df_new h df =
     (h\<lparr>frames := (frames h)(next_ref h := df), next_ref := Suc (next_ref h)\<rparr>, next_ref h)"

definition df_copy :: "heap \<Rightarrow> nat \<Rightarrow> heap \<times> nat" where
  "df_copy h r = df_new h (frames h r)"

text \<open>\<open>Series.unique()\<close>: the distinct values in order of first appearance.\<close>

fun unique_from :: "'a list \<Rightarrow> 'a list \<Rightarrow> 'a list" where
  "unique_from seen [] = rev seen"
| "unique_from seen (x # xs) =
     (if x \<in> set seen then unique_from seen xs else unique_from (x # seen) xs)"

definition py_unique :: "'a list \<Rightarrow> 'a list" where
  "py_unique xs = unique_from [] xs"

definition weather_mapping :: "(string \<times> real) list" where
  "weather_mapping =
     [(''sunny'', 0.9), (''partly_cloudy'', 0.7), (''cloudy'', 0.5),
      (''rainy'', 0.3), (''stormy'', 0.1), (''drought'', 0.1)]"

definition weather_score_of :: "string option \<Rightarrow> real" where
  "weather_score_of w =
     (case w of
        None \<Rightarrow> 0.5
      | Some c \<Rightarrow> (case map_of weather_mapping c of None \<Rightarrow> 0.5 | Some v \<Rightarrow> v))"

text \<open>\<open>Series.mean()\<close> skips missing cells and is NaN when every cell is missing.\<close>

definition series_mean :: "real option list \<Rightarrow> real option" where
  "series_mean cells =
     (let present = concat (map (\<lambda>c. case c of None \<Rightarrow> [] | Some v \<Rightarrow> [v]) cells)
      in if present = [] then None else Some (sum_list present / real (length present)))"

definition fillna :: "'a option \<Rightarrow> 'a option \<Rightarrow> 'a option" where
  "fillna fill cell = (case cell of None \<Rightarrow> fill | Some v \<Rightarrow> Some v)"

text \<open>The columns \<open>prepare_features\<close> assigns, computed on the rows of a non-empty frame.\<close>

definition prepared :: "dataframe \<Rightarrow> dataframe" where
  "prepared df =
     (let crop_types = py_unique (map col_crop_type df);
          crop_mapping = zip crop_types [0..<length crop_types];
          soil_mean = series_mean (map col_soil_quality_score df)
      in map (\<lambda>row. row\<lparr>col_month := map_option month_of (col_ds row),
                         col_crop_type_encoded := map_of crop_mapping (col_crop_type row),
                         col_weather_score := Some (weather_score_of (col_weather_condition row)),
                         col_soil_quality_score := fillna soil_mean (col_soil_quality_score row)\<rparr>)
           df)"

text \<open>
  \<open>prepare_features\<close> works on the frame it is given: for an empty frame it returns a
  new empty frame, otherwise it assigns the columns in place and returns the same object.
\<close>

definition prepare_features :: "heap \<Rightarrow> nat \<Rightarrow> heap \<times> nat" where
  "prepare_features h df =
     (if frames h df = [] then df_new h []
      else (h\<lparr>frames := (frames h)(df := prepared (frames h df))\<rparr>, df))"

text \<open>
  The estimator object. \<open>model\<close> is \<open>None\<close> while the regressor has not been fitted;
  a fitted regressor maps a feature vector to a number. The library calls are parameters:
  \<open>train_test_split\<close> (fixed ratio and seed) and the fit of the forest, which may raise.
\<close>

type_synonym regressor = "real list \<Rightarrow> real"
type_synonym sample = "real list \<times> real"

record yield_predictor =
  model :: "regressor option"
  is_trained :: bool

definition new_predictor :: yield_predictor where
  "new_predictor = \<lparr>model = None, is_trained = False\<rparr>"

record sklearn =
  train_test_split :: "sample list \<Rightarrow> sample list \<times> sample list"
  rf_fit :: "sample list \<Rightarrow> py_error + regressor"

text \<open>\<open>df[self.feature_columns].fillna(0)\<close> and \<open>df['y'].fillna(0)\<close>, row by row.\<close>

definition feature_row :: "observation \<Rightarrow> real list" where
  "feature_row row =
     [case col_month row of None \<Rightarrow> 0 | Some m \<Rightarrow> real_of_int m,
      case col_crop_type_encoded row of None \<Rightarrow> 0 | Some c \<Rightarrow> real c,
      case col_weather_score row of None \<Rightarrow> 0 | Some w \<Rightarrow> w,
      case col_soil_quality_score row of None \<Rightarrow> 0 | Some q \<Rightarrow> q]"

definition target_of :: "observation \<Rightarrow> real" where
  "target_of row = (case col_y row of None \<Rightarrow> 0 | Some v \<Rightarrow> v)"

text \<open>Predicting on, and scoring, an empty validation split raises ValueError.\<close>

definition mean_absolute_error :: "real list \<Rightarrow> real list \<Rightarrow> py_error + real" where
  "mean_absolute_error y_true y_pred =
     (if y_true = [] then Inl ValueError
      else Inr (sum_list (map (\<lambda>(a, b). \<bar>a - b\<bar>) (zip y_true y_pred)) / real (length y_true)))"

text \<open>
  \<open>train_model\<close>: the result flag, the heap and the estimator afterwards. Every
  exception ends in the \<open>except\<close> branch, which returns \<open>False\<close>. A fit that raises is
  taken to leave the regressor as it was; a fit that succeeds replaces it, also when the
  evaluation after it raises.
\<close>

definition train_model ::
  "sklearn \<Rightarrow> heap \<Rightarrow> yield_predictor \<Rightarrow> nat \<Rightarrow> bool \<times> heap \<times> yield_predictor" where
  "train_model sk h self historical_data =
     (if frames h historical_data = [] then (False, h, self)
      else
        let (h1, c) = df_copy h historical_data;
            (h2, d) = prepare_features h1 c;
            df = frames h2 d
        in if df = [] \<or> length df < 10 then (False, h2, self)
           else
             let (train, test) = train_test_split sk (zip (map feature_row df) (map target_of df))
             in case rf_fit sk train of
                  Inl e \<Rightarrow> (False, h2, self)
                | Inr reg \<Rightarrow>
                    (case mean_absolute_error (map snd test) (map (reg \<circ> fst) test) of
                       Inl e \<Rightarrow> (False, h2, self\<lparr>model := Some reg\<rparr>)
                     | Inr mae \<Rightarrow> (True, h2, self\<lparr>model := Some reg, is_trained := True\<rparr>)))"

text \<open>One row of the forecast frame.\<close>

record forecast =
  date :: datetime
  predicted_yield :: real
  confidence :: real

text \<open>The first loop of \<open>predict_future_yields\<close>, over \<open>range(1, months_ahead + 1)\<close>.\<close>

fun future_dates :: "datetime \<Rightarrow> int list \<Rightarrow> py_error + datetime list" where
  "future_dates current_date [] = Inr []"
| "future_dates current_date (i # rest) =
     (case timedelta_days (30 * i) of
        Inl e \<Rightarrow> Inl e
      | Inr delta \<Rightarrow>
          (case add_days current_date delta of
             Inl e \<Rightarrow> Inl e
           | Inr future_date \<Rightarrow>
               (case future_dates current_date rest of
                  Inl e \<Rightarrow> Inl e
                | Inr later \<Rightarrow> Inr (future_date # later))))"

text \<open>The feature vector of the second loop, built from the date of the period.\<close>

definition future_features :: "datetime \<Rightarrow> real list" where
  "future_features d = [real_of_int (month_of d), 0, 0.7, 0.75]"

definition predict_one :: "regressor \<Rightarrow> datetime \<Rightarrow> forecast" where
  "predict_one reg d =
     \<lparr>date = d, predicted_yield = max 0 (reg (future_features d)), confidence = 0.8\<rparr>"

text \<open>
  \<open>predict_future_yields\<close>, with the clock reading \<open>datetime.now()\<close> as the parameter
  \<open>now\<close>. The empty list is the empty frame. The estimator is not changed.
\<close>

definition predict_future_yields :: "yield_predictor \<Rightarrow> datetime \<Rightarrow> int \<Rightarrow> forecast list" where
  "predict_future_yields self now months_ahead =
     (if \<not> is_trained self then []
      else case future_dates now [1..months_ahead] of
             Inl e \<Rightarrow> []
           | Inr dates \<Rightarrow>
               (case model self of
                  None \<Rightarrow> []
                | Some reg \<Rightarrow> map (predict_one reg) dates))"

text \<open>Sequences of calls on one estimator object.\<close>

datatype call = Fit nat | Predict datetime int

datatype outcome = FitResult bool | Forecast "forecast list"

fun step :: "sklearn \<Rightarrow> heap \<times> yield_predictor \<Rightarrow> call \<Rightarrow> outcome \<times> heap \<times> yield_predictor" where
  "step sk (h, self) (Fit historical_data) =
     (case train_model sk h self historical_data of
        (ok, h', self') \<Rightarrow> (FitResult ok, h', self'))"
| "step sk (h, self) (Predict now months_ahead) =
     (Forecast (predict_future_yields self now months_ahead), h, self)"

fun run :: "sklearn \<Rightarrow> heap \<times> yield_predictor \<Rightarrow> call list \<Rightarrow> heap \<times> yield_predictor" where
  "run sk s [] = s"
| "run sk s (c # cs) = run sk (snd (step sk s c)) cs"

text \<open>
  A concrete setting for the examples below: a batch of ten observations at reference 0,
  an empty batch at reference 1, a split that takes the first eight samples for training,
  and a fit whose regressor returns the first feature (the month) of its input.
\<close>

definition example_row :: "int \<Rightarrow> string \<Rightarrow> string \<Rightarrow> real \<Rightarrow> observation" where
  "example_row day crop weather amount =
     \<lparr>col_ds = Some \<lparr>ordinal = day, day_micros = 0\<rparr>, col_y = Some amount,
      col_crop_type = crop, col_weather_condition = Some weather,
      col_soil_quality_score = Some 0.8, col_month = None, col_crop_type_encoded = None,
      col_weather_score = None\<rparr>"

definition example_batch :: dataframe where
  "example_batch =
     [example_row 738530 ''corn'' ''sunny'' 12, example_row 738561 ''wheat'' ''rainy'' 7,
      example_row 738589 ''corn'' ''cloudy'' 9, example_row 738620 ''corn'' ''sunny'' 13,
      example_row 738650 ''wheat'' ''sunny'' 8, example_row 738681 ''soybeans'' ''stormy'' 3,
      example_row 738711 ''corn'' ''partly_cloudy'' 11, example_row 738742 ''wheat'' ''foggy'' 6,
      example_row 738773 ''corn'' ''drought'' 4, example_row 738803 ''soybeans'' ''sunny'' 10]"

definition example_heap :: heap where
  "example_heap = \<lparr>frames = (\<lambda>r. if r = 0 then example_batch else []), next_ref = 2\<rparr>"

definition first_feature :: regressor where
  "first_feature x = (case x of [] \<Rightarrow> 0 | m # rest \<Rightarrow> m)"

definition example_sklearn :: sklearn where
  "example_sklearn = \<lparr>train_test_split = (\<lambda>samples. (take 8 samples, drop 8 samples)),
                        rf_fit = (\<lambda>train. Inr first_feature)\<rparr>"

definition example_now :: datetime where
  "example_now = \<lparr>ordinal = 738900, day_micros = 43200000000\<rparr>"

(*DEFS-END*)

section \<open>Properties of the responder\<close>















section \<open>Properties of the alert store\<close>

lemma map_of_update_child:
  "map_of (update_child k f al) k' =
     (if k' = k then Some (f (node_or_empty al k)) else map_of al k')"
  by (induction k f al rule: update_child.induct) (auto simp: node_or_empty_def)

lemma update_child_fresh:
  "k \<notin> fst ` set al \<Longrightarrow> update_child k f al = al @ [(k, f empty_alert)]"
  by (induction k f al rule: update_child.induct) auto


lemma keys_update_child:
  "set (map fst (update_child k f al)) = insert k (set (map fst al))"
  by (induction k f al rule: update_child.induct) auto

lemma distinct_update_child:
  "distinct (map fst al) \<Longrightarrow> distinct (map fst (update_child k f al))"
proof (induction k f al rule: update_child.induct)
  case (1 k f)
  then show ?case by simp
next
  case (2 k f k' a rest)
  then show ?case using keys_update_child [of k f rest] by auto
qed

lemma node_or_empty_Cons:
  "node_or_empty ((k', a) # rest) k = (if k' = k then a else node_or_empty rest k)"
  by (simp add: node_or_empty_def)

lemma set_update_child:
  "distinct (map fst al) \<Longrightarrow>
   set (update_child k f al) =
     insert (k, f (node_or_empty al k)) {e \<in> set al. fst e \<noteq> k}"
proof (induction al)
  case Nil
  then show ?case by (simp add: node_or_empty_def)
next
  case (Cons x rest)
  obtain k' a where x: "x = (k', a)" by (cases x)
  show ?case
  proof (cases "k' = k")
    case True
    then have "k \<notin> fst ` set rest" using Cons.prems x by auto
    then have "{e \<in> set (x # rest). fst e \<noteq> k} = set rest" using True x by force
    moreover have "set (update_child k f (x # rest)) = insert (k, f a) (set rest)"
      using True x by simp
    moreover have "node_or_empty (x # rest) k = a" using True x by (simp add: node_or_empty_Cons)
    ultimately show ?thesis by (simp only:)
  next
    case False
    have ih: "set (update_child k f rest) =
      insert (k, f (node_or_empty rest k)) {e \<in> set rest. fst e \<noteq> k}"
      using Cons by simp
    have "set (update_child k f (x # rest)) = insert (k', a) (set (update_child k f rest))"
      using False x by simp
    also have "\<dots> = insert (k', a) (insert (k, f (node_or_empty rest k)) {e \<in> set rest. fst e \<noteq> k})"
      by (simp only: ih)
    also have "\<dots> = insert (k, f (node_or_empty (x # rest) k)) {e \<in> set (x # rest). fst e \<noteq> k}"
      using False x by (auto simp: node_or_empty_Cons)
    finally show ?thesis .
  qed
qed

lemma those_with_timestamp:
  "those (map with_timestamp xs) = Some ts \<Longrightarrow> map snd ts = xs"
proof (induction xs arbitrary: ts)
  case Nil
  then show ?case by simp
next
  case (Cons x xs)
  then show ?case
    by (auto simp: with_timestamp_def split: option.splits)
qed

lemma those_with_timestamp_total:
  "list_all (\<lambda>e. alert_timestamp (snd e) \<noteq> None) xs \<Longrightarrow>
   \<exists>ts. those (map with_timestamp xs) = Some ts"
  by (induction xs) (auto simp: with_timestamp_def)

lemma sorted_newest_first_set:
  "sorted_newest_first xs = Some ys \<Longrightarrow> set ys = set xs"
proof -
  assume "sorted_newest_first xs = Some ys"
  then obtain ts where ts: "those (map with_timestamp xs) = Some ts"
    and ys: "ys = map snd (rev (sort_key fst (rev ts)))"
    by (auto simp: sorted_newest_first_def)
  have "set ys = snd ` set ts" using ys by simp
  also have "\<dots> = set (map snd ts)" by simp
  finally show ?thesis using those_with_timestamp [OF ts] by simp
qed

lemma sorted_newest_first_total:
  "list_all (\<lambda>e. alert_timestamp (snd e) \<noteq> None) xs \<Longrightarrow>
   \<exists>ys. sorted_newest_first xs = Some ys"
  using those_with_timestamp_total [of xs] by (auto simp: sorted_newest_first_def)

lemma set_read_equal_to:
  "set (read_equal_to b al) = {e \<in> set al. alert_read (snd e) = Some b}"
  by (auto simp: read_equal_to_def order_by_key_def)

lemma length_read_equal_to:
  "length (read_equal_to b al) = length (filter (\<lambda>(k, a). alert_read a = Some b) al)"
  by (simp add: read_equal_to_def order_by_key_def)

lemma set_limit_to_last: "set (limit_to_last n xs) \<subseteq> set xs"
  by (auto simp: limit_to_last_def dest: in_set_dropD)

lemma limit_to_last_all: "length xs \<le> n \<Longrightarrow> limit_to_last n xs = xs"
  by (simp add: limit_to_last_def)

text \<open>Whatever the limit, an unread listing only holds nodes of the store whose read flag is false.\<close>

lemma get_alerts_unread_cases:
  "db_ref s = Some db \<Longrightarrow>
   get_alerts s True limit = [] \<or>
   sorted_newest_first (limit_to_last (nat limit) (read_equal_to False (alerts db)))
     = Some (get_alerts s True limit)"
  by (simp add: get_alerts_def Let_def split: option.splits)

lemma get_alerts_unread_subset:
  "db_ref s = Some db \<Longrightarrow>
   set (get_alerts s True limit) \<subseteq> {e \<in> set (alerts db). alert_read (snd e) = Some False}"
proof -
  assume db: "db_ref s = Some db"
  let ?found = "limit_to_last (nat limit) (read_equal_to False (alerts db))"
  have sub: "set ?found \<subseteq> {e \<in> set (alerts db). alert_read (snd e) = Some False}"
    using set_limit_to_last [of "nat limit" "read_equal_to False (alerts db)"]
    by (simp add: set_read_equal_to)
  from get_alerts_unread_cases [OF db, of limit] show ?thesis
  proof
    assume "get_alerts s True limit = []"
    then show ?thesis by simp
  next
    assume "sorted_newest_first ?found = Some (get_alerts s True limit)"
    then have "set (get_alerts s True limit) = set ?found" by (rule sorted_newest_first_set)
    then show ?thesis using sub by simp
  qed
qed

lemma length_filter_update_child:
  "length (filter P (update_child k f al)) \<le> Suc (length (filter P al))"
  by (induction k f al rule: update_child.induct) auto

lemma alert_at_create:
  "create_alert s new_key now title message priority source = (Some alert_id, s') \<Longrightarrow>
   alert_id = new_key \<and>
   alert_at s' alert_id =
     Some \<lparr>alert_title = Some title, alert_message = Some message,
            alert_priority = Some priority, alert_source = source,
            alert_timestamp = Some now, alert_read = Some False,
            alert_resolved = Some False, alert_resolved_at = None,
            alert_resolution_note = None\<rparr>"
  by (auto simp: create_alert_def alert_at_def Let_def send_push_notification_def
        map_of_update_child split: option.splits if_splits)



lemma flags_resolve_update:
  "alert_read (resolve_update now rnote a) = Some True \<and>
   alert_resolved (resolve_update now rnote a) = Some True"
  by (simp add: resolve_update_def Let_def split: option.splits)




lemma store_ok_update:
  assumes ok: "store_ok s" and db: "db_ref s = Some db"
    and f: "alert_read (f (node_or_empty (alerts db) k)) = Some False \<longrightarrow>
            alert_timestamp (f (node_or_empty (alerts db) k)) \<noteq> None"
  shows "store_ok (s\<lparr>db_ref := Some (db\<lparr>alerts := update_child k f (alerts db)\<rparr>)\<rparr>)"
proof -
  have d: "distinct (map fst (alerts db))"
    and t: "\<forall>e \<in> set (alerts db). alert_read (snd e) = Some False \<longrightarrow> alert_timestamp (snd e) \<noteq> None"
    using ok db by (auto simp: store_ok_def list_all_iff)
  have "\<forall>e \<in> set (update_child k f (alerts db)).
          alert_read (snd e) = Some False \<longrightarrow> alert_timestamp (snd e) \<noteq> None"
    using t f by (auto simp: set_update_child [OF d])
  then show ?thesis
    using distinct_update_child [OF d, of k f]
    by (auto simp: store_ok_def list_all_iff)
qed

lemma store_ok_push_log: "store_ok (s\<lparr>push_log := l\<rparr>) = store_ok s"
  by (simp add: store_ok_def)

lemma store_ok_create:
  "store_ok s \<Longrightarrow> store_ok (snd (create_alert s new_key now title message priority source))"
proof (cases "db_ref s")
  case None
  assume "store_ok s"
  then show ?thesis using None by (simp add: create_alert_def)
next
  case (Some db)
  assume ok: "store_ok s"
  show ?thesis
    using store_ok_update [OF ok Some, of "\<lambda>_. \<lparr>alert_title = Some title, alert_message = Some message,
            alert_priority = Some priority, alert_source = source,
            alert_timestamp = Some now, alert_read = Some False,
            alert_resolved = Some False, alert_resolved_at = None,
            alert_resolution_note = None\<rparr>" new_key] Some
    by (auto simp: create_alert_def Let_def send_push_notification_def store_ok_push_log)
qed

lemma store_ok_mark_read:
  "store_ok s \<Longrightarrow> store_ok (snd (mark_alert_read s alert_id))"
proof (cases "db_ref s")
  case None
  assume "store_ok s"
  then show ?thesis using None by (simp add: mark_alert_read_def)
next
  case (Some db)
  assume ok: "store_ok s"
  show ?thesis
    using store_ok_update [OF ok Some, of "\<lambda>a. a\<lparr>alert_read := Some True\<rparr>" alert_id] Some
    by (simp add: mark_alert_read_def)
qed

lemma store_ok_resolve:
  "store_ok s \<Longrightarrow> store_ok (snd (resolve_alert s now alert_id rnote))"
proof (cases "db_ref s")
  case None
  assume "store_ok s"
  then show ?thesis using None by (simp add: resolve_alert_def)
next
  case (Some db)
  assume ok: "store_ok s"
  show ?thesis
    using store_ok_update [OF ok Some, of "resolve_update now rnote" alert_id] Some
    by (simp add: resolve_alert_def flags_resolve_update)
qed

lemma store_ok_empty: "store_ok \<lparr>db_ref = Some \<lparr>alerts = []\<rparr>, push_log = []\<rparr>"
  by (simp add: store_ok_def)

lemma store_ok_check_sensor_alerts:
  "store_ok s \<Longrightarrow> store_ok (check_sensor_alerts s new_key now fmt sensor_id sensor_type val)"
  by (auto simp: check_sensor_alerts_def store_ok_create split: option.splits)

text \<open>After a create that returned an id, the unread listing holds the new node.\<close>

lemma created_is_listed:
  assumes ok: "store_ok s"
    and cr: "create_alert s new_key now title message priority source = (Some alert_id, s1)"
    and lim: "int (unread_count s) < limit"
  shows "alert_id \<in> fst ` set (get_alerts s1 True limit)"
proof -
  obtain db where db: "db_ref s = Some db"
    using cr by (cases "db_ref s") (auto simp: create_alert_def)
  define d where "d = \<lparr>alert_title = Some title, alert_message = Some message,
            alert_priority = Some priority, alert_source = source,
            alert_timestamp = Some now, alert_read = Some False,
            alert_resolved = Some False, alert_resolved_at = None,
            alert_resolution_note = None\<rparr>"
  define al1 where "al1 = update_child new_key (\<lambda>_. d) (alerts db)"
  have id: "alert_id = new_key" and at: "alert_at s1 alert_id = Some d"
    using alert_at_create [OF cr] by (auto simp: d_def)
  have s1: "s1 = snd (create_alert s new_key now title message priority source)"
    using cr by simp
  have db1: "db_ref s1 = Some (db\<lparr>alerts := al1\<rparr>)"
    using cr db by (auto simp: create_alert_def Let_def send_push_notification_def al1_def d_def
        split: if_splits)
  have ok1: "store_ok s1" using store_ok_create [OF ok] s1 by simp
  have mem: "(new_key, d) \<in> set al1"
    using at db1 id by (auto simp: alert_at_def dest: map_of_SomeD)
  let ?unread = "read_equal_to False al1"
  have "length ?unread \<le> Suc (unread_count s)"
    using length_filter_update_child [of "\<lambda>(k, a). alert_read a = Some False" new_key "\<lambda>_. d" "alerts db"]
    by (simp add: length_read_equal_to al1_def unread_count_def db)
  then have "length ?unread \<le> nat limit" using lim by linarith
  then have found: "limit_to_last (nat limit) ?unread = ?unread"
    by (rule limit_to_last_all)
  have in_unread: "(new_key, d) \<in> set ?unread"
    using mem by (simp add: set_read_equal_to d_def)
  have "list_all (\<lambda>e. alert_timestamp (snd e) \<noteq> None) ?unread"
    using ok1 db1 by (auto simp: store_ok_def list_all_iff set_read_equal_to)
  then obtain ys where ys: "sorted_newest_first ?unread = Some ys"
    using sorted_newest_first_total by blast
  have nonneg: "\<not> limit < 0" using lim by simp
  have ne: "?unread \<noteq> []" using in_unread by auto
  have "get_alerts s1 True limit = ys"
    using db1 nonneg found ne ys by (simp add: get_alerts_def Let_def)
  moreover have "set ys = set ?unread" using ys by (rule sorted_newest_first_set)
  ultimately show ?thesis using in_unread id by force
qed

lemma read_is_not_listed:
  assumes ok: "store_ok s"
  shows "alert_id \<notin> fst ` set (get_alerts (snd (mark_alert_read s alert_id)) True limit)"
proof (cases "db_ref s")
  case None
  then show ?thesis by (simp add: mark_alert_read_def get_alerts_def)
next
  case (Some db)
  have d: "distinct (map fst (alerts db))" using ok Some by (simp add: store_ok_def)
  let ?al = "update_child alert_id (\<lambda>a. a\<lparr>alert_read := Some True\<rparr>) (alerts db)"
  have db2: "db_ref (snd (mark_alert_read s alert_id)) = Some (db\<lparr>alerts := ?al\<rparr>)"
    using Some by (simp add: mark_alert_read_def)
  have "\<forall>e \<in> set ?al. fst e = alert_id \<longrightarrow> alert_read (snd e) = Some True"
    by (auto simp: set_update_child [OF d])
  then have "alert_id \<notin> fst ` {e \<in> set ?al. alert_read (snd e) = Some False}" by auto
  then show ?thesis using get_alerts_unread_subset [OF db2, of limit] by auto
qed

lemma create_alert_fresh:
  "db_ref s = Some db \<Longrightarrow> new_key \<notin> fst ` set (alerts db) \<Longrightarrow>
   db_ref (snd (create_alert s new_key now title message priority source)) =
     Some (db\<lparr>alerts := alerts db @
        [(new_key, \<lparr>alert_title = Some title, alert_message = Some message,
            alert_priority = Some priority, alert_source = source,
            alert_timestamp = Some now, alert_read = Some False,
            alert_resolved = Some False, alert_resolved_at = None,
            alert_resolution_note = None\<rparr>)]\<rparr>)"
  by (simp add: create_alert_def Let_def send_push_notification_def update_child_fresh)

lemma metric_titles:
  "map (\<lambda>(m, lo, hi). (m, metric_title m)) alert_thresholds =
     [(''soil_moisture'', ''Soil Moisture''), (''temperature'', ''Temperature''),
      (''humidity'', ''Humidity''), (''ph_level'', ''Ph Level'')]"
  by (simp add: alert_thresholds_def metric_title_def py_title_def py_replace_chr_def
      islower_chr_def isupper_chr_def upper_chr_def lower_chr_def ascii_lowercase_def ascii_uppercase_def)

lemmas store_eval =
  alert_titles_def check_sensor_alerts_def connected_empty_def alert_thresholds_def
  create_alert_def Let_def send_push_notification_def metric_title_def py_title_def
  py_replace_chr_def islower_chr_def isupper_chr_def upper_chr_def lower_chr_def
  ascii_lowercase_def ascii_uppercase_def sensor_alert_def

text \<open>
  C3 (as stated, refuted). A soil-moisture reading of 19.9 on an empty, connected store
  creates one alert, and its title is "Low Soil Moisture", not "Low soil_moisture": the
  title is built from \<open>sensor_type.replace('_', ' ').title()\<close>.
\<close>

theorem C3_title_is_title_cased:
  "alert_titles (check_sensor_alerts connected_empty ''k1'' ''2024-05-01T10:00:00'' (\<lambda>x. ''19.9'')
       ''sensor-1'' ''soil_moisture'' (199 / 10)) = [Some ''Low Soil Moisture'']
   \<and> ''Low Soil Moisture'' \<noteq> ''Low soil_moisture''"
  by (simp add: store_eval)

text \<open>
  C3 (amended). Let the service hold a database reference and let the key generated by
  the store's push be new. For a metric type outside the table the service is left as it
  was. For a metric type of the table with range \<open>[lo, hi]\<close>: a value inside the range,
  boundaries included, leaves the service as it was; a value strictly below \<open>lo\<close> adds
  exactly one alert to the collection, of priority "high", unread and unresolved, whose
  title is "Low " followed by the metric name with underscores replaced by spaces and in
  title case; a value strictly above \<open>hi\<close> adds exactly one such alert titled "High "
  followed by that name. The names are Soil Moisture, Temperature, Humidity and Ph Level.
\<close>

theorem C3_threshold_alerts:
  assumes db: "db_ref s = Some db" and fresh: "new_key \<notin> fst ` set (alerts db)"
  shows "(map_of alert_thresholds sensor_type = None \<longrightarrow>
            check_sensor_alerts s new_key now fmt sensor_id sensor_type val = s)
       \<and> (\<forall>lo hi. map_of alert_thresholds sensor_type = Some (lo, hi) \<longrightarrow>
            (lo \<le> val \<and> val \<le> hi \<longrightarrow>
               check_sensor_alerts s new_key now fmt sensor_id sensor_type val = s)
          \<and> (val < lo \<longrightarrow>
               db_ref (check_sensor_alerts s new_key now fmt sensor_id sensor_type val) =
                 Some (db\<lparr>alerts := alerts db @
                   [(new_key, sensor_alert now ''Low'' ''below'' sensor_id sensor_type (fmt val) ''minimum'' (fmt lo))]\<rparr>))
          \<and> (hi < val \<longrightarrow>
               db_ref (check_sensor_alerts s new_key now fmt sensor_id sensor_type val) =
                 Some (db\<lparr>alerts := alerts db @
                   [(new_key, sensor_alert now ''High'' ''above'' sensor_id sensor_type (fmt val) ''maximum'' (fmt hi))]\<rparr>)))
       \<and> map (\<lambda>(m, lo, hi). (m, metric_title m)) alert_thresholds =
           [(''soil_moisture'', ''Soil Moisture''), (''temperature'', ''Temperature''),
            (''humidity'', ''Humidity''), (''ph_level'', ''Ph Level'')]"
proof -
  have none: "map_of alert_thresholds sensor_type = None \<longrightarrow>
            check_sensor_alerts s new_key now fmt sensor_id sensor_type val = s"
    by (simp add: check_sensor_alerts_def)
  have some: "map_of alert_thresholds sensor_type = Some (lo, hi) \<longrightarrow>
            (lo \<le> val \<and> val \<le> hi \<longrightarrow>
               check_sensor_alerts s new_key now fmt sensor_id sensor_type val = s)
          \<and> (val < lo \<longrightarrow>
               db_ref (check_sensor_alerts s new_key now fmt sensor_id sensor_type val) =
                 Some (db\<lparr>alerts := alerts db @
                   [(new_key, sensor_alert now ''Low'' ''below'' sensor_id sensor_type (fmt val) ''minimum'' (fmt lo))]\<rparr>))
          \<and> (hi < val \<longrightarrow>
               db_ref (check_sensor_alerts s new_key now fmt sensor_id sensor_type val) =
                 Some (db\<lparr>alerts := alerts db @
                   [(new_key, sensor_alert now ''High'' ''above'' sensor_id sensor_type (fmt val) ''maximum'' (fmt hi))]\<rparr>))" for lo hi
  proof
    assume t: "map_of alert_thresholds sensor_type = Some (lo, hi)"
    then have "(sensor_type, lo, hi) \<in> set alert_thresholds" by (rule map_of_SomeD)
    then have lohi: "lo < hi" by (auto simp: alert_thresholds_def)
    show "(lo \<le> val \<and> val \<le> hi \<longrightarrow>
               check_sensor_alerts s new_key now fmt sensor_id sensor_type val = s)
          \<and> (val < lo \<longrightarrow>
               db_ref (check_sensor_alerts s new_key now fmt sensor_id sensor_type val) =
                 Some (db\<lparr>alerts := alerts db @
                   [(new_key, sensor_alert now ''Low'' ''below'' sensor_id sensor_type (fmt val) ''minimum'' (fmt lo))]\<rparr>))
          \<and> (hi < val \<longrightarrow>
               db_ref (check_sensor_alerts s new_key now fmt sensor_id sensor_type val) =
                 Some (db\<lparr>alerts := alerts db @
                   [(new_key, sensor_alert now ''High'' ''above'' sensor_id sensor_type (fmt val) ''maximum'' (fmt hi))]\<rparr>))"
      using t lohi create_alert_fresh [OF db fresh]
      by (simp add: check_sensor_alerts_def sensor_alert_def)
  qed
  show ?thesis using none some metric_titles by blast
qed

theorem C3_threshold_alerts_witness:
  "db_ref connected_empty = Some \<lparr>alerts = []\<rparr>
   \<and> ''k1'' \<notin> fst ` set (alerts \<lparr>alerts = []\<rparr>)
   \<and> map_of alert_thresholds ''soil_moisture'' = Some (20, 80)
   \<and> (199 / 10 :: real) < 20
   \<and> db_ref (check_sensor_alerts connected_empty ''k1'' ''2024-05-01T10:00:00'' (\<lambda>x. ''n'')
               ''sensor-1'' ''soil_moisture'' (199 / 10)) =
       Some \<lparr>alerts = [(''k1'', sensor_alert ''2024-05-01T10:00:00'' ''Low'' ''below'' ''sensor-1''
                                  ''soil_moisture'' ''n'' ''minimum'' ''n'')]\<rparr>
   \<and> check_sensor_alerts connected_empty ''k1'' ''2024-05-01T10:00:00'' (\<lambda>x. ''n'')
        ''sensor-1'' ''soil_moisture'' 20 = connected_empty
   \<and> map_of alert_thresholds ''wind_speed'' = None
   \<and> check_sensor_alerts connected_empty ''k1'' ''2024-05-01T10:00:00'' (\<lambda>x. ''n'')
        ''sensor-1'' ''wind_speed'' 500 = connected_empty"
proof -
  have h1: "db_ref connected_empty = Some \<lparr>alerts = []\<rparr>" by (simp add: connected_empty_def)
  have h2: "''k1'' \<notin> fst ` set (alerts \<lparr>alerts = []\<rparr>)" by simp
  have t: "map_of alert_thresholds ''soil_moisture'' = Some (20, 80)"
    by (simp add: alert_thresholds_def)
  have u: "map_of alert_thresholds ''wind_speed'' = None"
    by (simp add: alert_thresholds_def)
  have lt: "(199 / 10 :: real) < 20" by simp
  have a: "db_ref (check_sensor_alerts connected_empty ''k1'' ''2024-05-01T10:00:00'' (\<lambda>x. ''n'')
               ''sensor-1'' ''soil_moisture'' (199 / 10)) =
       Some \<lparr>alerts = [(''k1'', sensor_alert ''2024-05-01T10:00:00'' ''Low'' ''below'' ''sensor-1''
                                  ''soil_moisture'' ''n'' ''minimum'' ''n'')]\<rparr>"
    using C3_threshold_alerts [OF h1 h2, of "''soil_moisture''" "''2024-05-01T10:00:00''"
        "\<lambda>x. ''n''" "''sensor-1''" "199 / 10"] t lt
    by simp
  have b: "check_sensor_alerts connected_empty ''k1'' ''2024-05-01T10:00:00'' (\<lambda>x. ''n'')
        ''sensor-1'' ''soil_moisture'' 20 = connected_empty"
    using C3_threshold_alerts [OF h1 h2, of "''soil_moisture''" "''2024-05-01T10:00:00''"
        "\<lambda>x. ''n''" "''sensor-1''" "20"] t
    by simp
  have c: "check_sensor_alerts connected_empty ''k1'' ''2024-05-01T10:00:00'' (\<lambda>x. ''n'')
        ''sensor-1'' ''wind_speed'' 500 = connected_empty"
    using C3_threshold_alerts [OF h1 h2, of "''wind_speed''" "''2024-05-01T10:00:00''"
        "\<lambda>x. ''n''" "''sensor-1''" "500"] u
    by simp
  show ?thesis using h1 h2 t u lt a b c by blast
qed



text \<open>
  C8. On a store built by the accessor (distinct keys, every unread node stamped), holding
  fewer unread alerts than the limit: an alert just created appears in the listing with
  \<open>unread_only=True\<close>; after \<open>mark_alert_read\<close> on its id it appears in no listing
  with \<open>unread_only=True\<close>, whatever the limit.
\<close>

theorem C8_unread_round_trip:
  assumes ok: "store_ok s"
    and cr: "create_alert s new_key now title message priority source = (Some alert_id, s1)"
    and lim: "int (unread_count s) < limit"
  shows "alert_id \<in> fst ` set (get_alerts s1 True limit)
       \<and> (\<forall>limit'. alert_id \<notin> fst ` set (get_alerts (snd (mark_alert_read s1 alert_id)) True limit'))"
proof -
  have "s1 = snd (create_alert s new_key now title message priority source)"
    using cr by simp
  then have ok1: "store_ok s1" using store_ok_create [OF ok] by simp
  have listed: "alert_id \<in> fst ` set (get_alerts s1 True limit)"
    using ok cr lim by (rule created_is_listed)
  have gone: "alert_id \<notin> fst ` set (get_alerts (snd (mark_alert_read s1 alert_id)) True limit')"
    for limit'
    using ok1 by (rule read_is_not_listed)
  show ?thesis using listed gone by blast
qed

theorem C8_unread_round_trip_witness:
  "store_ok connected_empty
   \<and> create_alert connected_empty ''k1'' ''2024-05-01T10:00:00'' ''Frost'' ''Frost tonight''
        ''medium'' None
      = (Some ''k1'', snd (create_alert connected_empty ''k1'' ''2024-05-01T10:00:00'' ''Frost''
                            ''Frost tonight'' ''medium'' None))
   \<and> int (unread_count connected_empty) < 50
   \<and> ''k1'' \<in> fst ` set (get_alerts (snd (create_alert connected_empty ''k1''
                ''2024-05-01T10:00:00'' ''Frost'' ''Frost tonight'' ''medium'' None)) True 50)
   \<and> ''k1'' \<notin> fst ` set (get_alerts (snd (mark_alert_read (snd (create_alert connected_empty ''k1''
                ''2024-05-01T10:00:00'' ''Frost'' ''Frost tonight'' ''medium'' None)) ''k1'')) True 50)"
proof -
  let ?s1 = "snd (create_alert connected_empty ''k1'' ''2024-05-01T10:00:00'' ''Frost''
                            ''Frost tonight'' ''medium'' None)"
  have h1: "store_ok connected_empty" by (simp add: store_ok_def connected_empty_def)
  have h2: "create_alert connected_empty ''k1'' ''2024-05-01T10:00:00'' ''Frost'' ''Frost tonight''
        ''medium'' None = (Some ''k1'', ?s1)"
    by (simp add: create_alert_def connected_empty_def Let_def)
  have h3: "int (unread_count connected_empty) < 50"
    by (simp add: unread_count_def connected_empty_def)
  show ?thesis using h1 h2 h3 C8_unread_round_trip [OF h1 h2 h3] by blast
qed

section \<open>Properties of the yield estimator\<close>

lemma length_prepared: "length (prepared df) = length df"
  by (simp add: prepared_def Let_def)

lemma example_fit_succeeds:
  "fst (train_model example_sklearn example_heap new_predictor 0)"
  by (simp add: train_model_def example_heap_def example_batch_def df_copy_def df_new_def
      prepare_features_def length_prepared example_sklearn_def mean_absolute_error_def
      prepared_def Let_def)

text \<open>What a call of \<open>train_model\<close> can do to the estimator.\<close>

lemma train_model_cases:
  "snd (snd (train_model sk h self batch)) = self \<and> \<not> fst (train_model sk h self batch)
   \<or> (\<exists>reg. snd (snd (train_model sk h self batch)) = self\<lparr>model := Some reg\<rparr>
             \<and> \<not> fst (train_model sk h self batch))
   \<or> (\<exists>reg. snd (snd (train_model sk h self batch)) = self\<lparr>model := Some reg, is_trained := True\<rparr>
             \<and> fst (train_model sk h self batch))"
  by (auto simp: train_model_def Let_def split: prod.splits sum.splits)

lemma train_model_success:
  "fst (train_model sk h self batch) \<Longrightarrow>
   is_trained (snd (snd (train_model sk h self batch))) \<and>
   (\<exists>reg. model (snd (snd (train_model sk h self batch))) = Some reg)"
  using train_model_cases [of sk h self batch] by auto

lemma train_model_keeps_trained:
  "is_trained self \<Longrightarrow> is_trained (snd (snd (train_model sk h self batch)))"
  using train_model_cases [of sk h self batch] by auto

lemma train_model_small:
  "length (frames h batch) < 10 \<Longrightarrow>
   \<not> fst (train_model sk h self batch) \<and> snd (snd (train_model sk h self batch)) = self"
  by (auto simp: train_model_def Let_def df_copy_def df_new_def prepare_features_def
      length_prepared split: prod.splits sum.splits)

lemma train_model_success_rows:
  "fst (train_model sk h self batch) \<Longrightarrow> 10 \<le> length (frames h batch)"
  using train_model_small [of h batch sk self] by (cases "length (frames h batch) < 10") auto

lemma train_model_frame:
  "r < next_ref h \<Longrightarrow> frames (fst (snd (train_model sk h self batch))) r = frames h r"
  by (auto simp: train_model_def Let_def df_copy_def df_new_def prepare_features_def
      split: prod.splits sum.splits)

lemma future_dates_in_range:
  "0 < ordinal now \<Longrightarrow> \<forall>i \<in> set js. 1 \<le> i \<and> ordinal now + 30 * i \<le> MAXORDINAL \<Longrightarrow>
   future_dates now js = Inr (map (\<lambda>i. now\<lparr>ordinal := ordinal now + 30 * i\<rparr>) js)"
proof (induction js)
  case Nil
  then show ?case by simp
next
  case (Cons i js)
  have i: "1 \<le> i" "ordinal now + 30 * i \<le> MAXORDINAL" using Cons.prems by auto
  then have "\<bar>30 * i\<bar> \<le> 999999999" using Cons.prems(1) by (simp add: MAXORDINAL_def)
  then have td: "timedelta_days (30 * i) = Inr (30 * i)" by (simp add: timedelta_days_def)
  have "0 < ordinal now + 30 * i" using i Cons.prems(1) by linarith
  then have ad: "add_days now (30 * i) = Inr (now\<lparr>ordinal := ordinal now + 30 * i\<rparr>)"
    using i by (simp add: add_days_def Let_def)
  have "future_dates now js = Inr (map (\<lambda>i. now\<lparr>ordinal := ordinal now + 30 * i\<rparr>) js)"
    using Cons by simp
  then show ?case using td ad by simp
qed

lemma future_dates_overflow:
  "i \<in> set js \<Longrightarrow> MAXORDINAL < ordinal now + 30 * i \<Longrightarrow> \<exists>e. future_dates now js = Inl e"
proof (induction js)
  case Nil
  then show ?case by simp
next
  case (Cons j js)
  show ?case
  proof (cases "j = i")
    case True
    then have "\<exists>e. add_days now (30 * j) = Inl e"
      using Cons.prems by (simp add: add_days_def Let_def)
    then show ?thesis by (auto simp: timedelta_days_def split: sum.splits if_splits)
  next
    case False
    then have "\<exists>e. future_dates now js = Inl e" using Cons by simp
    then show ?thesis by (auto split: sum.splits)
  qed
qed

lemma predict_overflow:
  "1 \<le> n \<Longrightarrow> MAXORDINAL < ordinal now + 30 * n \<Longrightarrow> predict_future_yields self now n = []"
  using future_dates_overflow [of n "[1..n]" now]
  by (auto simp: predict_future_yields_def split: sum.splits)

lemma predict_in_range:
  assumes "is_trained self" and "model self = Some reg"
    and "0 < ordinal now" and "ordinal now + 30 * n \<le> MAXORDINAL"
  shows "predict_future_yields self now n =
           map (\<lambda>k. predict_one reg (now\<lparr>ordinal := ordinal now + 30 * k\<rparr>)) [1..n]"
proof -
  have "\<forall>i \<in> set [1..n]. 1 \<le> i \<and> ordinal now + 30 * i \<le> MAXORDINAL"
    using assms(4) by auto
  then have "future_dates now [1..n] = Inr (map (\<lambda>i. now\<lparr>ordinal := ordinal now + 30 * i\<rparr>) [1..n])"
    using assms(3) by (rule future_dates_in_range [rotated])
  then show ?thesis using assms(1,2) by (simp add: predict_future_yields_def comp_def)
qed

lemma run_append: "run sk s (xs @ ys) = run sk (run sk s xs) ys"
  by (induction xs arbitrary: s) auto

lemma step_Fit:
  "step sk (h, self) (Fit batch) =
     (FitResult (fst (train_model sk h self batch)), snd (train_model sk h self batch))"
  by (simp split: prod.splits)

lemma step_keeps_trained: "is_trained (snd s) \<Longrightarrow> is_trained (snd (snd (step sk s c)))"
proof (cases s)
  case (Pair h self)
  assume "is_trained (snd s)"
  then have t: "is_trained self" using Pair by simp
  show ?thesis
  proof (cases c)
    case (Fit batch)
    then show ?thesis using Pair train_model_keeps_trained [OF t] by (simp only: step_Fit snd_conv)
  next
    case (Predict now n)
    then show ?thesis using Pair t by simp
  qed
qed

lemma run_keeps_trained: "is_trained (snd s) \<Longrightarrow> is_trained (snd (run sk s cs))"
  by (induction cs arbitrary: s) (auto simp: step_keeps_trained)

lemma fit_true_trained:
  "fst (step sk s (Fit batch)) = FitResult True \<Longrightarrow> is_trained (snd (snd (step sk s (Fit batch))))"
proof (cases s)
  case (Pair h self)
  assume "fst (step sk s (Fit batch)) = FitResult True"
  then have "fst (train_model sk h self batch)" using Pair by (simp only: step_Fit fst_conv) simp
  then show ?thesis using Pair train_model_success [of sk h self batch]
    by (simp only: step_Fit snd_conv)
qed

end
